theory Spec2Isabelle
  imports Complex_Main "HOL-Library.Word"
begin

section \<open>Post-processing of the PINet outputs (PINetTensorrt.cpp)\<close>

text \<open>
  The development embeds \<^verbatim>\<open>generate_result\<close>, \<^verbatim>\<open>chwDataToMat\<close> and
  \<^verbatim>\<open>verifyOutput\<close> of \<^verbatim>\<open>PINetTensorrt.cpp\<close>.

  Conventions of the embedding.
  \<^item> A \<^verbatim>\<open>float*\<close> argument is the memory behind the pointer, a function from the element
    index to the value; the C++ functions receive no length. A \<^verbatim>\<open>float\<close> is the real
    number it stands for: the comparisons of the source are exact on floats, the float
    constants are taken at their binary values, the product in \<^verbatim>\<open>chwDataToMat\<close> is
    rounded to 24 significant bits, and the arithmetic of the scan loop runs on small
    integers, where float arithmetic is exact. NaN, infinities and subnormal numbers are
    left out.
  \<^item> A \<^verbatim>\<open>cv::Mat\<close> is its header (rows, columns, bytes per element) and the bytes
    behind its data pointer. OpenCV's release-mode accessors compute an address and
    reinterpret it: \<^verbatim>\<open>m.at<T>(i, j)\<close> is the \<^verbatim>\<open>T\<close> at byte
    \<^verbatim>\<open>step * i + sizeof(T) * j\<close>, and \<^verbatim>\<open>m.ptr<T>(i, j)\<close> is the address
    \<^verbatim>\<open>step * i + elemSize * j\<close>, where \<^verbatim>\<open>step = cols * elemSize\<close> for the
    continuous matrices built here. Neither checks \<^verbatim>\<open>T\<close> against the element type nor
    \<^verbatim>\<open>j\<close> against the number of columns. Integers are stored little-endian.
  \<^item> Every matrix keeps its own bytes. An offset at or beyond \<^verbatim>\<open>rows * step\<close> is
    outside the allocation; the model keeps such a byte in the same function, so an overrun
    is visible as an access at such an offset, and its effect on other objects is not
    modelled.
  \<^item> \<^verbatim>\<open>nvinfer1::Dims\<close> holds the three extents \<^verbatim>\<open>d[0]\<close>, \<^verbatim>\<open>d[1]\<close>,
    \<^verbatim>\<open>d[2]\<close>; they are natural numbers here (the engine reports positive extents).
\<close>

subsection \<open>Data\<close>

type_synonym byte = "8 word"

type_synonym floats = "nat \<Rightarrow> real"

record Dims =
  d0 :: nat
  d1 :: nat
  d2 :: nat

record Mat =
  rows :: nat
  cols :: nat
  elemSize :: nat
  data :: "nat \<Rightarrow> byte"

definition step :: "Mat \<Rightarrow> nat" where
  "step m = cols m * elemSize m"

text \<open>
  \<^verbatim>\<open>cv::Mat::zeros(r, c, CV_8UC1)\<close>: one byte per element, the \<^verbatim>\<open>r * c\<close> bytes of the
  allocation zero; \<open>outside\<close> is what lies behind them.
\<close>

definition zeros_8UC1 :: "nat \<Rightarrow> nat \<Rightarrow> (nat \<Rightarrow> byte) \<Rightarrow> Mat" where
  "zeros_8UC1 r c outside =
     \<lparr>rows = r, cols = c, elemSize = 1, data = (\<lambda>a. if a < r * c then 0 else outside a)\<rparr>"

text \<open>\<^verbatim>\<open>m.at<int>(i, j)\<close>: the four bytes from \<^verbatim>\<open>step * i + 4 * j\<close>.\<close>

definition at_int_addr :: "Mat \<Rightarrow> nat \<Rightarrow> nat \<Rightarrow> nat" where
  "at_int_addr m i j = step m * i + 4 * j"

definition le32 :: "byte \<Rightarrow> byte \<Rightarrow> byte \<Rightarrow> byte \<Rightarrow> int" where
  "le32 b0 b1 b2 b3 =
     sint (word_of_nat (unat b0 + 256 * unat b1 + 65536 * unat b2 + 16777216 * unat b3)
            :: 32 word)"

definition at_int :: "Mat \<Rightarrow> nat \<Rightarrow> nat \<Rightarrow> int" where
  "at_int m i j =
     (let a = at_int_addr m i j
      in le32 (data m a) (data m (a + 1)) (data m (a + 2)) (data m (a + 3)))"

text \<open>\<^verbatim>\<open>m.at<int>(i, j) = 1\<close>: the bytes 1, 0, 0, 0 from that address.\<close>

definition store_int_1 :: "nat \<Rightarrow> (nat \<Rightarrow> byte) \<Rightarrow> (nat \<Rightarrow> byte)" where
  "store_int_1 a f = f(a := 1, a + 1 := 0, a + 2 := 0, a + 3 := 0)"

definition at_int_set_1 :: "Mat \<Rightarrow> nat \<Rightarrow> nat \<Rightarrow> Mat" where
  "at_int_set_1 m i j = m\<lparr>data := store_int_1 (at_int_addr m i j) (data m)\<rparr>"

subsection \<open>Loops\<close>

text \<open>
  The cells of \<^verbatim>\<open>for (i = 0; i < n; ++i) for (j = 0; j < k; ++j)\<close> in the order the
  loops visit them, and the nested loops as a left fold of the body over these cells.
\<close>

definition cells :: "nat \<Rightarrow> nat \<Rightarrow> (nat \<times> nat) list" where
  "cells n k = List.product [0..<n] [0..<k]"

definition for2 :: "nat \<Rightarrow> nat \<Rightarrow> (nat \<Rightarrow> nat \<Rightarrow> 's \<Rightarrow> 's) \<Rightarrow> 's \<Rightarrow> 's" where
  "for2 n k body s = fold (\<lambda>(i, j). body i j) (cells n k) s"

subsection \<open>The confidence mask (lines 281--289)\<close>

text \<open>
  \<^verbatim>\<open>mask = cv::Mat::zeros(dim.d[1], dim.d[2], CV_8UC1)\<close>; the loops run \<^verbatim>\<open>i\<close> below
  \<^verbatim>\<open>dim.d[2]\<close> and \<^verbatim>\<open>j\<close> below \<^verbatim>\<open>dim.d[1]\<close>, and \<^verbatim>\<open>confidance_ptr\<close> advances by
  one element in every inner iteration, so cell \<^verbatim>\<open>(i, j)\<close> reads element
  \<^verbatim>\<open>i * dim.d[1] + j\<close>.
\<close>

definition conf_index :: "Dims \<Rightarrow> nat \<Rightarrow> nat \<Rightarrow> nat" where
  "conf_index dm i j = i * d1 dm + j"

definition mask_body :: "Dims \<Rightarrow> floats \<Rightarrow> real \<Rightarrow> nat \<Rightarrow> nat \<Rightarrow> Mat \<Rightarrow> Mat" where
  "mask_body dm confidance thresh i j msk =
     (if confidance (conf_index dm i j) > thresh then at_int_set_1 msk i j else msk)"

definition build_mask :: "Dims \<Rightarrow> floats \<Rightarrow> real \<Rightarrow> (nat \<Rightarrow> byte) \<Rightarrow> Mat" where
  "build_mask dm confidance thresh outside =
     for2 (d2 dm) (d1 dm) (mask_body dm confidance thresh)
       (zeros_8UC1 (d1 dm) (d2 dm) outside)"

text \<open>
  The mask as the source reads it back, \<^verbatim>\<open>mask.at<int>(i, j)\<close> (lines 292--296 print
  it this way): a cell is marked when the value read is 1.
\<close>

definition marked :: "Mat \<Rightarrow> nat \<Rightarrow> nat \<Rightarrow> bool" where
  "marked msk i j \<longleftrightarrow> at_int msk i j = 1"

subsection \<open>\<^verbatim>\<open>chwDataToMat\<close> (lines 251--268)\<close>

datatype error = AssertionFailed | CvException

text \<open>
  Rounding to the nearest \<^verbatim>\<open>float\<close>, ties to the even significand: a nonzero \<open>x\<close> with
  \<open>2\<^sup>e \<le> \<bar>x\<bar> < 2\<^sup>e\<^sup>+\<^sup>1\<close> is rounded to a multiple of \<open>2\<^sup>e\<^sup>-\<^sup>2\<^sup>3\<close>. The product of a
  \<^verbatim>\<open>float\<close> and an \<^verbatim>\<open>int\<close> converts the \<^verbatim>\<open>int\<close> to \<^verbatim>\<open>float\<close> and rounds the product.
\<close>

definition round_even :: "real \<Rightarrow> int" where
  "round_even y =
     (let f = \<lfloor>y\<rfloor>
      in if y - of_int f < 1 / 2 then f
         else if y - of_int f > 1 / 2 then f + 1
         else if even f then f else f + 1)"

definition float_round :: "real \<Rightarrow> real" where
  "float_round x =
     (if x = 0 then 0
      else let u = 2 powr (of_int \<lfloor>log 2 \<bar>x\<bar>\<rfloor> - 23)
           in u * of_int (round_even (x / u)))"

definition float_mul_int :: "real \<Rightarrow> int \<Rightarrow> real" where
  "float_mul_int x n = float_round (x * float_round (of_int n))"

text \<open>The C++ conversion of a float to an integer type drops the fraction.\<close>

definition c_trunc :: "real \<Rightarrow> int" where
  "c_trunc x = (if 0 \<le> x then \<lfloor>x\<rfloor> else \<lceil>x\<rceil>)"

text \<open>
  Float to \<^verbatim>\<open>uchar\<close>. C++ defines the result only when the truncated value lies in
  0..255; outside that range the model takes the low byte.
\<close>

definition uchar_of_float :: "real \<Rightarrow> byte" where
  "uchar_of_float x = word_of_int (c_trunc x)"

text \<open>
  \<^verbatim>\<open>cv::Mat channel(width, height, CV_32FC1)\<close>: \<^verbatim>\<open>width\<close> rows, \<^verbatim>\<open>height\<close> columns,
  four bytes per element, contents not initialised (\<open>junk\<close> is what the allocation holds).
\<close>

definition Mat_32FC1 :: "nat \<Rightarrow> nat \<Rightarrow> (nat \<Rightarrow> byte) \<Rightarrow> Mat" where
  "Mat_32FC1 r c junk = \<lparr>rows = r, cols = c, elemSize = 4, data = junk\<rparr>"

text \<open>
  \<^verbatim>\<open>channel.ptr<cv::Vec3b>(w, h)[c] = v\<close>: the address of element \<^verbatim>\<open>(w, h)\<close>, moved by
  \<^verbatim>\<open>c\<close> three-byte vectors; the float \<^verbatim>\<open>v\<close> becomes the vector \<^verbatim>\<open>(uchar(v), 0, 0)\<close>
  through the one-argument constructor of \<^verbatim>\<open>cv::Vec\<close>.
\<close>

definition ptr_Vec3b_addr :: "Mat \<Rightarrow> nat \<Rightarrow> nat \<Rightarrow> nat \<Rightarrow> nat" where
  "ptr_Vec3b_addr m w h c = step m * w + elemSize m * h + 3 * c"

definition store_Vec3b :: "nat \<Rightarrow> byte \<Rightarrow> (nat \<Rightarrow> byte) \<Rightarrow> (nat \<Rightarrow> byte)" where
  "store_Vec3b a v f = f(a := v, a + 1 := 0, a + 2 := 0)"

definition channel_body ::
  "nat \<Rightarrow> nat \<Rightarrow> floats \<Rightarrow> Mat \<Rightarrow> nat \<Rightarrow> nat \<Rightarrow> nat \<Rightarrow> Mat \<Rightarrow> Mat" where
  "channel_body width c channel_data msk base h w channel =
     channel\<lparr>data :=
       store_Vec3b (ptr_Vec3b_addr channel w h c)
         (uchar_of_float (float_mul_int (channel_data (base + h * width + w)) (at_int msk w h)))
         (data channel)\<rparr>"

text \<open>
  One round of the loop over \<^verbatim>\<open>c\<close>. \<^verbatim>\<open>data_size\<close> is
  \<^verbatim>\<open>width * height * sizeof(float)\<close> and is added to a \<^verbatim>\<open>float*\<close>, so channel \<^verbatim>\<open>c\<close>
  starts \<^verbatim>\<open>data_size * c\<close> elements into the array.
\<close>

definition data_size :: "nat \<Rightarrow> nat \<Rightarrow> nat" where
  "data_size width height = width * height * 4"

definition make_channel ::
  "nat \<Rightarrow> nat \<Rightarrow> floats \<Rightarrow> Mat \<Rightarrow> (nat \<Rightarrow> nat \<Rightarrow> byte) \<Rightarrow> nat \<Rightarrow> Mat" where
  "make_channel width height dat msk junk c =
     for2 height width
       (channel_body width c dat msk (data_size width height * c))
       (Mat_32FC1 width height (junk c))"

text \<open>
  \<^verbatim>\<open>cv::merge(mv, n, dst)\<close>: \<^verbatim>\<open>dst\<close> has the extents of the planes and \<^verbatim>\<open>n\<close> floats
  per element; float \<^verbatim>\<open>k\<close> of element \<^verbatim>\<open>e\<close> is element \<^verbatim>\<open>e\<close> of plane \<^verbatim>\<open>k\<close>. It
  throws when \<^verbatim>\<open>n\<close> is 0. Bytes outside the new allocation are \<open>outside\<close>.
\<close>

definition merged_byte :: "Mat list \<Rightarrow> nat \<Rightarrow> byte" where
  "merged_byte mv p =
     (let n = length mv; fl = p div 4
      in data (mv ! (fl mod n)) (4 * (fl div n) + p mod 4))"

definition merge :: "Mat list \<Rightarrow> (nat \<Rightarrow> byte) \<Rightarrow> error + Mat" where
  "merge mv outside =
     (case mv of
        [] \<Rightarrow> Inl CvException
      | m0 # _ \<Rightarrow>
          Inr \<lparr>rows = rows m0, cols = cols m0, elemSize = 4 * length mv,
               data = (\<lambda>p. if p < rows m0 * cols m0 * 4 * length mv
                            then merged_byte mv p else outside p)\<rparr>)"

definition chwDataToMat ::
  "nat \<Rightarrow> nat \<Rightarrow> nat \<Rightarrow> floats \<Rightarrow> Mat \<Rightarrow> (nat \<Rightarrow> nat \<Rightarrow> byte) \<Rightarrow> error + Mat" where
  "chwDataToMat numberOfChannel width height dat msk junk =
     merge (map (make_channel width height dat msk junk) [0..<numberOfChannel])
       (junk numberOfChannel)"

subsection \<open>The scan of the cells (lines 302--319)\<close>

definition output_base_index :: nat where
  "output_base_index = 3"

text \<open>
  The values of the \<^verbatim>\<open>float\<close> constants \<^verbatim>\<open>0.81f\<close>, \<^verbatim>\<open>0.22f\<close> and
  \<^verbatim>\<open>0.000001f\<close>: \<open>13589545 / 2\<^sup>2\<^sup>4\<close>, \<open>7381975 / 2\<^sup>2\<^sup>5\<close> and \<open>8796093 / 2\<^sup>4\<^sup>3\<close>.
\<close>

definition threshold_point :: real where
  "threshold_point = 13589545 / 16777216"

definition threshold_instance :: real where
  "threshold_instance = 7381975 / 33554432"

definition resize_ratio :: int where
  "resize_ratio = 8"

definition degenerate_eps :: real where
  "degenerate_eps = 8796093 / 8796093022208"

text \<open>
  \<^verbatim>\<open>feature.at<cv::Vec3b>(i, j)[k]\<close>: byte \<^verbatim>\<open>k\<close> of the three bytes at
  \<^verbatim>\<open>step * i + 3 * j\<close>, an \<^verbatim>\<open>unsigned char\<close>, which the source widens to \<^verbatim>\<open>float\<close>.
\<close>

definition at_Vec3b :: "Mat \<Rightarrow> nat \<Rightarrow> nat \<Rightarrow> nat \<Rightarrow> byte" where
  "at_Vec3b m i j k = data m (step m * i + 3 * j + k)"

text \<open>
  What one pass through the loop body does: it leaves at the first \<^verbatim>\<open>continue\<close>, at the
  second, or reaches the end of the body (line 317) holding \<^verbatim>\<open>point_x\<close> and
  \<^verbatim>\<open>point_y\<close>. The body ends there; the source does nothing with the point. The body
  reads \<^verbatim>\<open>feature\<close> and \<^verbatim>\<open>dim\<close> only; the matrix \<^verbatim>\<open>offset\<close> of line 299 does
  not occur in it.
\<close>

datatype cell_result = DegenerateSkip | OutOfBoundsSkip | BodyEnd int int

definition point_of :: "real \<Rightarrow> nat \<Rightarrow> int" where
  "point_of f k = c_trunc ((f + real k) * of_int resize_ratio)"

definition scan_cell :: "Dims \<Rightarrow> Mat \<Rightarrow> nat \<Rightarrow> nat \<Rightarrow> cell_result" where
  "scan_cell dm feature i j =
     (let feature0 = real (unat (at_Vec3b feature i j 0));
          feature1 = real (unat (at_Vec3b feature i j 1))
      in if \<bar>feature0\<bar> + \<bar>feature1\<bar> < degenerate_eps then DegenerateSkip
         else
           let point_x = point_of feature0 j;
               point_y = point_of feature1 i
           in if point_x < 0 \<or> point_x \<ge> int (d1 dm) \<or> point_y < 0 \<or> point_y \<ge> int (d2 dm)
              then OutOfBoundsSkip
              else BodyEnd point_x point_y)"

text \<open>The passes of the two loops, in the order they run.\<close>

definition scan :: "Dims \<Rightarrow> Mat \<Rightarrow> cell_result list" where
  "scan dm feature =
     map (\<lambda>(i, j). scan_cell dm feature i j) (cells (d2 dm) (d1 dm))"

subsection \<open>\<^verbatim>\<open>generate_result\<close> (lines 275--354) and \<^verbatim>\<open>verifyOutput\<close> (lines 361--398)\<close>

text \<open>
  The state the two functions work on: the three host buffers behind the pointers
  \<^verbatim>\<open>confidance\<close>, \<^verbatim>\<open>offset\<close> and \<^verbatim>\<open>instance\<close>, and what has been written to
  \<^verbatim>\<open>gLogInfo\<close>. The number formatting of the stream is not modelled.
\<close>

datatype logitem = Text string | IntItem int | FloatItem real | Endl

record host =
  h_confidance :: floats
  h_offsets :: floats
  h_instance :: floats
  gLogInfo :: "logitem list"

definition log_mask :: "Dims \<Rightarrow> Mat \<Rightarrow> logitem list" where
  "log_mask dm msk =
     Text ''Output confidance mask:'' # Endl #
     concat (map (\<lambda>i. map (\<lambda>j. IntItem (at_int msk i j)) [0..<d1 dm] @ [Endl]) [0..<d2 dm])"

text \<open>
  \<^verbatim>\<open>mOutputDims\<close> is the vector of the six output extents, read at an index.
  \<open>junk\<close> gives what the source does not initialise: \<open>junk 0\<close> and \<open>junk 1\<close> the
  fresh allocations of the calls on the offsets and on the instance array, \<open>junk 2 0\<close>
  the bytes behind the mask. The function returns
  \<^verbatim>\<open>void\<close>; the model returns the state after the call and the passes of the scan.
\<close>

definition generate_result ::
  "(nat \<Rightarrow> Dims) \<Rightarrow> (nat \<Rightarrow> nat \<Rightarrow> nat \<Rightarrow> byte) \<Rightarrow> real \<Rightarrow> host
     \<Rightarrow> error + (host \<times> cell_result list)" where
  "generate_result mOutputDims junk thresh s =
     (let dm = mOutputDims output_base_index;
          offset_dim = mOutputDims (output_base_index + 1);
          instance_dim = mOutputDims (output_base_index + 2);
          msk = build_mask dm (h_confidance s) thresh (junk 2 0);
          s1 = s\<lparr>gLogInfo := gLogInfo s @ log_mask dm msk\<rparr>
      in case chwDataToMat (d0 offset_dim) (d1 offset_dim) (d2 offset_dim)
                (h_offsets s1) msk (junk 0) of
           Inl e \<Rightarrow> Inl e
         | Inr offset \<Rightarrow>
             (case chwDataToMat (d0 instance_dim) (d1 instance_dim) (d2 instance_dim)
                     (h_instance s1) msk (junk 1) of
                Inl e \<Rightarrow> Inl e
              | Inr feature \<Rightarrow> Inr (s1, scan dm feature)))"

definition log_confidance :: "Dims \<Rightarrow> floats \<Rightarrow> logitem list" where
  "log_confidance confidanceDims confidance =
     Text ''Output confidance:'' # Endl #
     concat (map (\<lambda>i. map (\<lambda>j. FloatItem (confidance i)) [0..<d1 confidanceDims] @ [Endl])
               [0..<d2 confidanceDims])"

text \<open>
  The three \<^verbatim>\<open>assert\<close>s are taken as compiled in; a failed one ends the program.
\<close>

definition verifyOutput ::
  "(nat \<Rightarrow> Dims) \<Rightarrow> (nat \<Rightarrow> nat \<Rightarrow> nat \<Rightarrow> byte) \<Rightarrow> host \<Rightarrow> error + (bool \<times> host)" where
  "verifyOutput mOutputDims junk s =
     (let confidanceDims = mOutputDims (output_base_index + 0);
          offsetDims = mOutputDims (output_base_index + 1);
          instanceDims = mOutputDims (output_base_index + 2)
      in if d0 confidanceDims \<noteq> 1 then Inl AssertionFailed
         else if d0 offsetDims \<noteq> 2 then Inl AssertionFailed
         else if d0 instanceDims \<noteq> 4 then Inl AssertionFailed
         else
           let s1 = s\<lparr>gLogInfo := gLogInfo s @ log_confidance confidanceDims (h_confidance s)\<rparr>
           in case generate_result mOutputDims junk threshold_point s1 of
                Inl e \<Rightarrow> Inl e
              | Inr (s2, passes) \<Rightarrow> Inr (True, s2))"

subsection \<open>What a call leaves visible\<close>

text \<open>
  The result of \<^verbatim>\<open>generate_result\<close> apart from the offsets buffer itself: the error if
  one is thrown, otherwise the log, the other two buffers and the passes of the scan.
\<close>

definition observable ::
  "error + (host \<times> cell_result list)
     \<Rightarrow> error + (logitem list \<times> floats \<times> floats \<times> cell_result list)" where
  "observable r =
     map_sum id (\<lambda>(s, passes). (gLogInfo s, h_confidance s, h_instance s, passes)) r"

subsection \<open>Concrete inputs\<close>

text \<open>The extents the comments of lines 277--279 give: 1, 2 and 4 planes of 64 by 32.\<close>

definition pinet_dims :: Dims where
  "pinet_dims = \<lparr>d0 = 1, d1 = 64, d2 = 32\<rparr>"

definition pinet_output_dims :: "nat \<Rightarrow> Dims" where
  "pinet_output_dims k =
     \<lparr>d0 = (if k = 3 then 1 else if k = 4 then 2 else 4), d1 = 64, d2 = 32\<rparr>"

text \<open>The same, with the two spatial extents of the offset output exchanged.\<close>

definition mismatched_output_dims :: "nat \<Rightarrow> Dims" where
  "mismatched_output_dims k =
     (if k = 4 then \<lparr>d0 = 2, d1 = 32, d2 = 64\<rparr> else pinet_output_dims k)"

text \<open>A confidence array that is 0.9 at element 64 (cell \<^verbatim>\<open>i = 1, j = 0\<close>) and 0 elsewhere.\<close>

definition conf_one_cell :: floats where
  "conf_one_cell k = (if k = 64 then 9 / 10 else 0)"

definition junk_zero :: "nat \<Rightarrow> nat \<Rightarrow> nat \<Rightarrow> byte" where
  "junk_zero call c a = 0"

definition host_zero :: host where
  "host_zero = \<lparr>h_confidance = (\<lambda>k. 0), h_offsets = (\<lambda>k. 0), h_instance = (\<lambda>k. 0),
                 gLogInfo = []\<rparr>"

text \<open>
  Confidence 0.9 and instance value 2 at element 0, every offset 0.5, all else 0.
\<close>

definition host_first :: host where
  "host_first =
     \<lparr>h_confidance = (\<lambda>k. if k = 0 then 9 / 10 else 0),
      h_offsets = (\<lambda>k. 1 / 2),
      h_instance = (\<lambda>k. if k = 0 then 2 else 0),
      gLogInfo = []\<rparr>"

text \<open>
  The element that holds plane \<open>k\<close> of cell \<^verbatim>\<open>(i, j)\<close> in an array of planes laid out one
  after the other, each walked as the mask loop walks the confidence array.
\<close>

definition instance_index :: "Dims \<Rightarrow> nat \<Rightarrow> nat \<Rightarrow> nat \<Rightarrow> nat" where
  "instance_index dm k i j = k * (d1 dm * d2 dm) + conf_index dm i j"

text \<open>
  Confidence 0.9 at element 64 (cell \<^verbatim>\<open>i = 1, j = 0\<close>), instance value 1 at element 1
  (plane 0 of cell \<^verbatim>\<open>i = 0, j = 1\<close>), all else 0.
\<close>

definition host_alias :: host where
  "host_alias =
     \<lparr>h_confidance = (\<lambda>k. if k = 64 then 9 / 10 else 0),
      h_offsets = (\<lambda>k. 0),
      h_instance = (\<lambda>k. if k = 1 then 1 else 0),
      gLogInfo = []\<rparr>"



text \<open>A matrix of the shape of \<^verbatim>\<open>feature\<close> with byte 0 equal to 9 and all others 0.\<close>

definition feature_nine :: Mat where
  "feature_nine =
     \<lparr>rows = 64, cols = 32, elemSize = 16, data = (\<lambda>a. if a = 0 then 9 else 0)\<rparr>"

section \<open>Properties\<close>

subsection \<open>The loops\<close>

lemma set_cells: "set (cells n k) = {0..<n} \<times> {0..<k}"
  by (simp add: cells_def)

lemma length_cells: "length (cells n k) = n * k"
  by (simp add: cells_def)

lemma cell_index_less:
  assumes "i < n" and "j < k"
  shows "i * k + j < n * (k::nat)"
proof -
  have "i * k + j < Suc i * k" using assms(2) by simp
  also have "\<dots> \<le> n * k" using assms(1) by (intro mult_le_mono1) simp
  finally show ?thesis .
qed

lemma cells_nth:
  assumes "i < n" and "j < k"
  shows "cells n k ! (i * k + j) = (i, j)"
  using assms cell_index_less [OF assms] by (simp add: cells_def product_nth)

subsection \<open>The mask\<close>

lemma aligned_gap:
  fixes p q :: nat
  assumes "4 dvd p" and "4 dvd q" and "p < q" and "q < p + 4"
  shows False
proof -
  obtain k l where "p = 4 * k" and "q = 4 * l" using assms(1,2) unfolding dvd_def by blast
  then show False using assms(3,4) by arith
qed

lemma store_int_1_at:
  "store_int_1 a0 f a =
     (if a = a0 then 1 else if a0 < a \<and> a < a0 + 4 then 0 else f a)"
proof -
  consider "a = a0" | "a = a0 + 1" | "a = a0 + 2" | "a = a0 + 3"
    | "\<not> (a0 \<le> a \<and> a < a0 + 4)"
    by arith
  then show ?thesis
    by cases (auto simp: store_int_1_def)
qed

lemma mask_body_step: "step (mask_body dm c t i j m) = step m"
  by (simp add: mask_body_def at_int_set_1_def step_def)

lemma mask_body_data:
  "data (mask_body dm c t i j m) =
     (if c (conf_index dm i j) > t then store_int_1 (step m * i + 4 * j) (data m) else data m)"
  by (simp add: mask_body_def at_int_set_1_def at_int_addr_def)

text \<open>
  When the row length is a multiple of 4, every store of the mask loop starts at a
  multiple of 4, so two stores cover the same four bytes or disjoint ones. After the loop
  a byte is 1 if a store started at it, 0 if a store covered it otherwise, and as before
  if no store reached it.
\<close>

lemma fold_mask:
  assumes "4 dvd step m"
  shows "step (fold (\<lambda>(i, j). mask_body dm c t i j) cs m) = step m \<and>
         (\<forall>a. data (fold (\<lambda>(i, j). mask_body dm c t i j) cs m) a =
            (if \<exists>(i, j) \<in> set cs. c (conf_index dm i j) > t \<and> step m * i + 4 * j = a
             then 1
             else if \<exists>(i, j) \<in> set cs. c (conf_index dm i j) > t \<and>
                       step m * i + 4 * j < a \<and> a < step m * i + 4 * j + 4
             then 0 else data m a))"
  using assms
proof (induction cs arbitrary: m)
  case Nil
  then show ?case by simp
next
  case (Cons x cs)
  obtain i j where x: "x = (i, j)" by (cases x)
  let ?m1 = "mask_body dm c t i j m"
  have al: "4 dvd step m * i' + 4 * j'" for i' j' using Cons.prems by simp
  have s1: "step ?m1 = step m" by (rule mask_body_step)
  have d1: "data ?m1 a =
      (if c (conf_index dm i j) > t \<and> step m * i + 4 * j = a then 1
       else if c (conf_index dm i j) > t \<and> step m * i + 4 * j < a \<and> a < step m * i + 4 * j + 4
       then 0 else data m a)" for a
    by (simp add: mask_body_data store_int_1_at)
  from Cons.IH [of ?m1] s1 Cons.prems
  have IH1: "step (fold (\<lambda>(i, j). mask_body dm c t i j) cs ?m1) = step m"
    and IH2: "data (fold (\<lambda>(i, j). mask_body dm c t i j) cs ?m1) a =
            (if \<exists>(i, j) \<in> set cs. c (conf_index dm i j) > t \<and> step m * i + 4 * j = a
             then 1
             else if \<exists>(i, j) \<in> set cs. c (conf_index dm i j) > t \<and>
                       step m * i + 4 * j < a \<and> a < step m * i + 4 * j + 4
             then 0 else data ?m1 a)" for a
    by simp_all
  have clash: False
    if "step m * i' + 4 * j' < a" and "a < step m * i' + 4 * j' + 4"
      and "step m * i'' + 4 * j'' = a" for a i' j' i'' j''
    using aligned_gap [OF al [of i' j'] al [of i'' j'']] that by simp
  show ?case
    unfolding x list.set fold_Cons comp_apply prod.case IH1 IH2 d1
    by (auto dest: clash)
qed

lemma build_mask_data:
  assumes "4 dvd d2 dm"
  shows "data (build_mask dm c t outside) a =
            (if \<exists>(i, j) \<in> set (cells (d2 dm) (d1 dm)).
                  c (conf_index dm i j) > t \<and> d2 dm * i + 4 * j = a
             then 1
             else if \<exists>(i, j) \<in> set (cells (d2 dm) (d1 dm)). c (conf_index dm i j) > t \<and>
                       d2 dm * i + 4 * j < a \<and> a < d2 dm * i + 4 * j + 4
             then 0
             else if a < d1 dm * d2 dm then 0 else outside a)"
    and "step (build_mask dm c t outside) = d2 dm"
  using fold_mask [of "zeros_8UC1 (d1 dm) (d2 dm) outside" dm c t "cells (d2 dm) (d1 dm)"] assms
  by (simp_all add: build_mask_def for2_def zeros_8UC1_def step_def)

lemma le32_one: "le32 1 0 0 0 = 1" and le32_zero: "le32 0 0 0 0 = 0"
  by (simp_all add: le32_def)

text \<open>
  A read \<^verbatim>\<open>mask.at<int>(i, j)\<close> that stays inside the allocation gives 1 when some
  visited cell above the threshold was stored at the same address, and 0 otherwise.
\<close>

lemma at_int_build_mask:
  assumes "4 dvd d2 dm" and "d2 dm * i + 4 * j + 3 < d1 dm * d2 dm"
  shows "at_int (build_mask dm c t outside) i j =
         (if \<exists>(i', j') \<in> set (cells (d2 dm) (d1 dm)).
               c (conf_index dm i' j') > t \<and> d2 dm * i' + 4 * j' = d2 dm * i + 4 * j
          then 1 else 0)"
proof -
  let ?a = "d2 dm * i + 4 * j"
  let ?m = "build_mask dm c t outside"
  have al: "4 dvd d2 dm * i' + 4 * j'" for i' j' using assms(1) by simp
  have miss: "d2 dm * i' + 4 * j' \<noteq> ?a + k" if "0 < k" and "k < 4" for i' j' k
    using aligned_gap [OF al [of i j] al [of i' j']] that by auto
  have b0: "data ?m ?a =
         (if \<exists>(i', j') \<in> set (cells (d2 dm) (d1 dm)).
               c (conf_index dm i' j') > t \<and> d2 dm * i' + 4 * j' = ?a
          then 1 else 0)"
    using assms(2) by (simp add: build_mask_data(1) [OF assms(1)])
  have bk: "data ?m (?a + k) = 0" if "0 < k" and "k < 4" for k
  proof -
    have "\<not> (\<exists>(i', j') \<in> set (cells (d2 dm) (d1 dm)).
               c (conf_index dm i' j') > t \<and> d2 dm * i' + 4 * j' = ?a + k)"
      using miss [OF that] by auto
    moreover have "?a + k < d1 dm * d2 dm" using assms(2) that by arith
    ultimately show ?thesis
      unfolding build_mask_data(1) [OF assms(1)] by simp
  qed
  have "at_int ?m i j = le32 (data ?m ?a) (data ?m (?a + 1)) (data ?m (?a + 2)) (data ?m (?a + 3))"
    by (simp add: at_int_def at_int_addr_def Let_def build_mask_data(2) [OF assms(1)])
  also have "\<dots> = le32 (data ?m ?a) 0 0 0"
    using bk [of 1] bk [of 2] bk [of 3] by simp
  finally show ?thesis
    unfolding b0 by (simp add: le32_one le32_zero)
qed

text \<open>
  Such a cell \<^verbatim>\<open>(i, j)\<close> reads as marked exactly when some visited cell whose four
  bytes start at the same address is above the threshold.
\<close>

lemma marked_build_mask:
  assumes "4 dvd d2 dm" and "d2 dm * i + 4 * j + 3 < d1 dm * d2 dm"
  shows "marked (build_mask dm c t outside) i j \<longleftrightarrow>
         (\<exists>(i', j') \<in> set (cells (d2 dm) (d1 dm)).
             c (conf_index dm i' j') > t \<and> d2 dm * i' + 4 * j' = d2 dm * i + 4 * j)"
  by (simp add: marked_def at_int_build_mask [OF assms])

text \<open>
  Claim C2 (the mask marks a cell exactly when its own confidence is above the
  threshold), evaluated on the 64 by 32 grid with the single confidence 0.9 at cell
  \<^verbatim>\<open>i = 1, j = 0\<close>: the mask is one byte per element with rows of 32 bytes, the source
  writes and reads it as \<^verbatim>\<open>int\<close> with \<^verbatim>\<open>j\<close> up to 63, so cell \<^verbatim>\<open>(0, 8)\<close> occupies
  the bytes of cell \<^verbatim>\<open>(1, 0)\<close> and reads as marked although its confidence is 0.
\<close>

theorem mask_marks_aliased_cell:
  "marked (build_mask pinet_dims conf_one_cell threshold_point (junk_zero 2 0)) 0 8 \<and>
   \<not> conf_one_cell (conf_index pinet_dims 0 8) > threshold_point"
proof -
  have d: "4 dvd d2 pinet_dims" by (simp add: pinet_dims_def)
  have b: "d2 pinet_dims * 0 + 4 * 8 + 3 < d1 pinet_dims * d2 pinet_dims"
    by (simp add: pinet_dims_def)
  have "(1, 0) \<in> set (cells (d2 pinet_dims) (d1 pinet_dims))"
    by (simp add: set_cells pinet_dims_def)
  moreover have "conf_one_cell (conf_index pinet_dims 1 0) > threshold_point \<and>
      d2 pinet_dims * 1 + 4 * 0 = d2 pinet_dims * 0 + 4 * 8"
    by (simp add: conf_one_cell_def conf_index_def pinet_dims_def threshold_point_def)
  ultimately have
    "marked (build_mask pinet_dims conf_one_cell threshold_point (junk_zero 2 0)) 0 8"
    unfolding marked_build_mask [OF d b] by blast
  moreover have "\<not> conf_one_cell (conf_index pinet_dims 0 8) > threshold_point"
    by (simp add: conf_one_cell_def conf_index_def pinet_dims_def threshold_point_def)
  ultimately show ?thesis by simp
qed

subsection \<open>The scan\<close>

lemma length_scan: "length (scan dm feature) = d2 dm * d1 dm"
  by (simp add: scan_def length_cells)

lemma scan_nth:
  assumes "i < d2 dm" and "j < d1 dm"
  shows "scan dm feature ! (i * d1 dm + j) = scan_cell dm feature i j"
  using assms cell_index_less [OF assms]
  by (simp add: scan_def length_cells cells_nth)

lemma c_trunc_of_int: "c_trunc (of_int z) = z"
  by (simp add: c_trunc_def)

text \<open>The operands are an unsigned byte and a loop index, so the product is a whole number.\<close>

lemma point_of_nat: "point_of (real n) k = 8 * (int n + int k)"
proof -
  have "(real n + real k) * of_int resize_ratio = of_int (8 * (int n + int k))"
    by (simp add: resize_ratio_def)
  then show ?thesis
    unfolding point_of_def by (simp only: c_trunc_of_int)
qed

lemma below_eps_zero:
  assumes "\<bar>real n\<bar> < degenerate_eps"
  shows "n = 0"
proof -
  have "real n < 1" using assms unfolding degenerate_eps_def by linarith
  then show ?thesis by simp
qed

text \<open>
  The first \<^verbatim>\<open>continue\<close> (line 306), on the two local values \<^verbatim>\<open>feature0\<close> and
  \<^verbatim>\<open>feature1\<close>: when both are below the epsilon in absolute value the pass leaves there.
  These are the bytes at \<^verbatim>\<open>step * i + 3 * j\<close> of \<^verbatim>\<open>feature\<close>; which instance values, if
  any, they come from is the subject of the lemmas on the planes below.
\<close>

lemma first_continue_on_read_bytes:
  assumes "i < d2 dm" and "j < d1 dm"
    and "\<bar>real (unat (at_Vec3b feature i j 0))\<bar> < degenerate_eps"
    and "\<bar>real (unat (at_Vec3b feature i j 1))\<bar> < degenerate_eps"
  shows "scan dm feature ! (i * d1 dm + j) = DegenerateSkip"
proof -
  have "unat (at_Vec3b feature i j 0) = 0"
    using assms(3) by (rule below_eps_zero)
  moreover have "unat (at_Vec3b feature i j 1) = 0"
    using assms(4) by (rule below_eps_zero)
  ultimately have "scan_cell dm feature i j = DegenerateSkip"
    by (simp add: scan_cell_def degenerate_eps_def)
  then show ?thesis
    by (simp add: scan_nth assms(1,2))
qed

text \<open>
  Claim C5. In the pass of a cell that is not skipped as degenerate, if \<^verbatim>\<open>point_x\<close> is
  outside \<^verbatim>\<open>[0, dim.d[1])\<close> or \<^verbatim>\<open>point_y\<close> is outside \<^verbatim>\<open>[0, dim.d[2])\<close> (the extents
  of the grid: \<^verbatim>\<open>j\<close> runs below \<^verbatim>\<open>dim.d[1]\<close> and \<^verbatim>\<open>i\<close> below \<^verbatim>\<open>dim.d[2]\<close>), the
  pass leaves at the second \<^verbatim>\<open>continue\<close>, and the loops still make all their
  \<^verbatim>\<open>dim.d[2] * dim.d[1]\<close> passes: nothing is raised or returned on the way.
\<close>

theorem out_of_grid_point_is_skipped:
  assumes "i < d2 dm" and "j < d1 dm"
    and "\<not> \<bar>real (unat (at_Vec3b feature i j 0))\<bar> + \<bar>real (unat (at_Vec3b feature i j 1))\<bar>
           < degenerate_eps"
    and "point_of (real (unat (at_Vec3b feature i j 0))) j < 0 \<or>
         point_of (real (unat (at_Vec3b feature i j 0))) j \<ge> int (d1 dm) \<or>
         point_of (real (unat (at_Vec3b feature i j 1))) i < 0 \<or>
         point_of (real (unat (at_Vec3b feature i j 1))) i \<ge> int (d2 dm)"
  shows "scan dm feature ! (i * d1 dm + j) = OutOfBoundsSkip \<and>
         length (scan dm feature) = d2 dm * d1 dm"
proof -
  have "scan_cell dm feature i j = OutOfBoundsSkip"
    using assms(3,4) by (simp add: scan_cell_def Let_def)
  then show ?thesis
    by (simp add: scan_nth assms(1,2) length_scan)
qed

theorem out_of_grid_point_is_skipped_witness:
  "point_of (real (unat (at_Vec3b feature_nine 0 0 0))) 0 = 72 \<and>
   d1 pinet_dims = 64 \<and>
   scan pinet_dims feature_nine ! (0 * d1 pinet_dims + 0) = OutOfBoundsSkip \<and>
   length (scan pinet_dims feature_nine) = d2 pinet_dims * d1 pinet_dims"
proof -
  have b: "at_Vec3b feature_nine 0 0 0 = 9" "at_Vec3b feature_nine 0 0 1 = 0"
    by (simp_all add: at_Vec3b_def feature_nine_def)
  have d: "0 < d2 pinet_dims" "0 < d1 pinet_dims" by (simp_all add: pinet_dims_def)
  have n: "\<not> \<bar>real (unat (at_Vec3b feature_nine 0 0 0))\<bar> +
             \<bar>real (unat (at_Vec3b feature_nine 0 0 1))\<bar> < degenerate_eps"
    by (simp add: b degenerate_eps_def)
  have p: "point_of (real (unat (at_Vec3b feature_nine 0 0 0))) 0 = 72"
    using point_of_nat [of 9 0] by (simp add: b)
  have o: "point_of (real (unat (at_Vec3b feature_nine 0 0 0))) 0 < 0 \<or>
         point_of (real (unat (at_Vec3b feature_nine 0 0 0))) 0 \<ge> int (d1 pinet_dims) \<or>
         point_of (real (unat (at_Vec3b feature_nine 0 0 1))) 0 < 0 \<or>
         point_of (real (unat (at_Vec3b feature_nine 0 0 1))) 0 \<ge> int (d2 pinet_dims)"
  proof -
    have "point_of (real (unat (at_Vec3b feature_nine 0 0 0))) 0 \<ge> int (d1 pinet_dims)"
      unfolding p by (simp add: pinet_dims_def)
    then show ?thesis by blast
  qed
  show ?thesis
    using out_of_grid_point_is_skipped [OF d n o] p by (simp add: pinet_dims_def)
qed


subsection \<open>\<^verbatim>\<open>generate_result\<close> and \<^verbatim>\<open>verifyOutput\<close> as a whole\<close>

lemma chwDataToMat_zero: "chwDataToMat 0 w h dat msk junk = Inl CvException"
  by (simp add: chwDataToMat_def merge_def)

lemma chwDataToMat_pos:
  assumes "0 < n"
  shows "\<exists>m. chwDataToMat n w h dat msk junk = Inr m"
proof -
  have "map (make_channel w h dat msk junk) [0..<n] \<noteq> []" using assms by simp
  then show ?thesis
    unfolding chwDataToMat_def merge_def by (auto split: list.splits)
qed

text \<open>
  The call throws exactly when one of the two plane counts is 0; otherwise it ends in
  the state it started in with the print of the mask added to the log, and the scan has
  run over the matrix made from the instance array.
\<close>

lemma generate_result_cases:
  "generate_result D junk t s =
     (if d0 (D 4) = 0 \<or> d0 (D 5) = 0 then Inl CvException
      else Inr (s\<lparr>gLogInfo := gLogInfo s @ log_mask (D 3) (build_mask (D 3) (h_confidance s) t (junk 2 0))\<rparr>,
                scan (D 3)
                  (projr (chwDataToMat (d0 (D 5)) (d1 (D 5)) (d2 (D 5)) (h_instance s)
                            (build_mask (D 3) (h_confidance s) t (junk 2 0)) (junk 1)))))"
proof (cases "d0 (D 4) = 0")
  case True
  then show ?thesis
    by (simp add: generate_result_def output_base_index_def Let_def chwDataToMat_zero)
next
  case False
  then obtain mo where mo: "chwDataToMat (d0 (D 4)) (d1 (D 4)) (d2 (D 4)) (h_offsets s)
      (build_mask (D 3) (h_confidance s) t (junk 2 0)) (junk 0) = Inr mo"
    using chwDataToMat_pos by (metis neq0_conv)
  show ?thesis
  proof (cases "d0 (D 5) = 0")
    case True
    then show ?thesis
      using mo by (simp add: generate_result_def output_base_index_def Let_def chwDataToMat_zero)
  next
    case f: False
    then obtain mf where mf: "chwDataToMat (d0 (D 5)) (d1 (D 5)) (d2 (D 5)) (h_instance s)
      (build_mask (D 3) (h_confidance s) t (junk 2 0)) (junk 1) = Inr mf"
      using chwDataToMat_pos by (metis neq0_conv)
    show ?thesis
      using mo mf False f
      by (simp add: generate_result_def output_base_index_def Let_def)
  qed
qed

lemma verifyOutput_cases:
  "verifyOutput D junk s =
     (if d0 (D 3) = 1 \<and> d0 (D 4) = 2 \<and> d0 (D 5) = 4
      then Inr (True, s\<lparr>gLogInfo := gLogInfo s @ log_confidance (D 3) (h_confidance s) @
                         log_mask (D 3) (build_mask (D 3) (h_confidance s) threshold_point (junk 2 0))\<rparr>)
      else Inl AssertionFailed)"
  by (simp add: verifyOutput_def generate_result_cases output_base_index_def Let_def)

text \<open>
  Claim C8, as the source has it. \<^verbatim>\<open>verifyOutput\<close> checks the three plane counts, by
  \<^verbatim>\<open>assert\<close>, and nothing else: with plane counts 1, 2 and 4 it returns \<^verbatim>\<open>true\<close>
  whatever the spatial extents of the three outputs are, and otherwise the assertion
  fails. No outcome depends on \<^verbatim>\<open>d[1]\<close> or \<^verbatim>\<open>d[2]\<close>.
\<close>

theorem verifyOutput_checks_plane_counts_only:
  "map_sum id fst (verifyOutput D junk s) =
     (if d0 (D 3) = 1 \<and> d0 (D 4) = 2 \<and> d0 (D 5) = 4 then Inr True else Inl AssertionFailed)"
  by (simp add: verifyOutput_cases)

text \<open>
  The claim as stated fails: the offset output declared 32 by 64 beside a confidence
  output declared 64 by 32 is accepted, and the call returns \<^verbatim>\<open>true\<close>.
\<close>

theorem mismatched_extents_are_accepted:
  "d1 (mismatched_output_dims 4) \<noteq> d1 (mismatched_output_dims 3) \<and>
   d2 (mismatched_output_dims 4) \<noteq> d2 (mismatched_output_dims 3) \<and>
   map_sum id fst (verifyOutput mismatched_output_dims junk_zero host_zero) = Inr True"
  by (simp add: verifyOutput_cases mismatched_output_dims_def pinet_output_dims_def)

text \<open>
  The matrix made from the offsets is bound at line 299 and not read again: two calls
  on states that differ in the offsets buffer only, and that find the same bytes in the
  memory they do not initialise, have the same observable result.
\<close>

lemma offset_matrix_is_not_read:
  "observable (generate_result D junk t (s\<lparr>h_offsets := offsets1\<rparr>)) =
   observable (generate_result D junk t (s\<lparr>h_offsets := offsets2\<rparr>))"
  by (simp add: generate_result_cases observable_def)


subsection \<open>Rounding\<close>

lemma round_even_of_int: "round_even (of_int k) = k"
  by (simp add: round_even_def)

lemma float_round_exact:
  assumes "x \<noteq> 0" and "x / 2 powr (of_int \<lfloor>log 2 \<bar>x\<bar>\<rfloor> - 23) = of_int k"
  shows "float_round x = x"
proof -
  let ?u = "2 powr (of_int \<lfloor>log 2 \<bar>x\<bar>\<rfloor> - 23)"
  have u: "?u \<noteq> 0" by simp
  have "float_round x = ?u * of_int (round_even (x / ?u))"
    using assms(1) by (simp add: float_round_def Let_def)
  also have "\<dots> = ?u * (x / ?u)"
    unfolding assms(2) round_even_of_int by simp
  also have "\<dots> = x" using u by simp
  finally show ?thesis .
qed

lemma ulp_quotient:
  assumes "\<lfloor>log 2 \<bar>x\<bar>\<rfloor> = e" and "x = 2 ^ nat e * of_int m" and "0 \<le> e" and "e \<le> 23"
  shows "x / 2 powr (of_int \<lfloor>log 2 \<bar>x\<bar>\<rfloor> - 23) = of_int (m * 2 ^ 23)"
proof -
  have "2 powr (of_int e - 23) = 2 powr (of_int e) / 2 powr (23::real)"
    by (simp add: powr_diff)
  also have "2 powr (of_int e) = (2::real) ^ nat e"
    using assms(3) by (simp add: powr_realpow [symmetric])
  also have "2 powr (23::real) = (2::real) ^ 23"
    by (rule powr_numeral) simp
  finally have u: "2 powr (of_int e - 23) = (2::real) ^ nat e / 2 ^ 23" .
  show ?thesis
    unfolding assms(1) u by (subst assms(2)) simp
qed

lemma float_round_1: "float_round 1 = 1"
proof (rule float_round_exact)
  show "(1::real) \<noteq> 0" by simp
  have "\<lfloor>log 2 \<bar>1::real\<bar>\<rfloor> = 0" by simp
  then show "(1::real) / 2 powr (of_int \<lfloor>log 2 \<bar>1\<bar>\<rfloor> - 23) = of_int (1 * 2 ^ 23)"
    by (rule ulp_quotient) simp_all
qed

lemma float_round_2: "float_round 2 = 2"
proof (rule float_round_exact)
  show "(2::real) \<noteq> 0" by simp
  have "\<lfloor>log 2 \<bar>2::real\<bar>\<rfloor> = 1" by simp
  then show "(2::real) / 2 powr (of_int \<lfloor>log 2 \<bar>2\<bar>\<rfloor> - 23) = of_int (1 * 2 ^ 23)"
    by (rule ulp_quotient) simp_all
qed

lemma float_mul_int_one: "float_mul_int 1 1 = 1" and float_mul_int_two: "float_mul_int 2 1 = 2"
  by (simp_all add: float_mul_int_def float_round_1 float_round_2)

subsection \<open>The planes\<close>

lemma fold_channel_header:
  "rows (fold (\<lambda>(h, w). channel_body width c dat msk base h w) cs ch) = rows ch \<and>
   cols (fold (\<lambda>(h, w). channel_body width c dat msk base h w) cs ch) = cols ch \<and>
   elemSize (fold (\<lambda>(h, w). channel_body width c dat msk base h w) cs ch) = elemSize ch"
  by (induction cs arbitrary: ch) (auto simp: channel_body_def)

lemma make_channel_header:
  "rows (make_channel width height dat msk junk c) = width \<and>
   cols (make_channel width height dat msk junk c) = height \<and>
   elemSize (make_channel width height dat msk junk c) = 4"
  by (simp add: make_channel_def for2_def fold_channel_header Mat_32FC1_def)

lemma channel_body_data:
  "data (channel_body width c dat msk base h w ch) =
     store_Vec3b (ptr_Vec3b_addr ch w h c)
       (uchar_of_float (float_mul_int (dat (base + h * width + w)) (at_int msk w h)))
       (data ch)"
  by (simp add: channel_body_def)

text \<open>A byte that no store of the loop covers keeps what the allocation held.\<close>

lemma fold_channel_untouched:
  assumes "\<forall>(h, w) \<in> set cs.
             a < cols ch * elemSize ch * w + elemSize ch * h + 3 * c \<or>
             cols ch * elemSize ch * w + elemSize ch * h + 3 * c + 2 < a"
  shows "data (fold (\<lambda>(h, w). channel_body width c dat msk base h w) cs ch) a = data ch a"
  using assms
proof (induction cs arbitrary: ch)
  case Nil
  then show ?case by simp
next
  case (Cons x cs)
  obtain h w where x: "x = (h, w)" by (cases x)
  let ?ch1 = "channel_body width c dat msk base h w ch"
  have hd: "cols ?ch1 = cols ch" "elemSize ?ch1 = elemSize ch"
    by (simp_all add: channel_body_def)
  have "data (fold (\<lambda>(h, w). channel_body width c dat msk base h w) cs ?ch1) a = data ?ch1 a"
    using Cons.prems by (intro Cons.IH) (simp add: hd)
  moreover have "data ?ch1 a = data ch a"
    using Cons.prems
    by (auto simp: x channel_body_data store_Vec3b_def ptr_Vec3b_addr_def step_def)
  ultimately show ?case by (simp add: x)
qed

lemma make_channel_untouched:
  assumes "\<forall>(h, w) \<in> set (cells height width).
             a < height * 4 * w + 4 * h + 3 * c \<or> height * 4 * w + 4 * h + 3 * c + 2 < a"
  shows "data (make_channel width height dat msk junk c) a = junk c a"
  using fold_channel_untouched [of "cells height width" a "Mat_32FC1 width height (junk c)" c
      width dat msk "data_size width height * c"] assms
  by (simp add: make_channel_def for2_def Mat_32FC1_def)

text \<open>
  In plane 0 the cell \<^verbatim>\<open>(h, w)\<close> stores at the first three bytes of element
  \<^verbatim>\<open>height * w + h\<close>, and no other cell stores there.
\<close>

lemma element_index_inj:
  fixes k :: nat
  assumes "h < k" and "h0 < k" and "k * w + h = k * w0 + h0"
  shows "h = h0 \<and> w = w0"
proof -
  have "(k * w + h) mod k = h" "(k * w0 + h0) mod k = h0" using assms(1,2) by simp_all
  then have h: "h = h0" using assms(3) by simp
  have "(k * w + h) div k = w" "(k * w0 + h0) div k = w0" using assms(1,2) by simp_all
  then have "w = w0" using assms(3) by simp
  with h show ?thesis by simp
qed

lemma fold_channel0_element:
  assumes "elemSize ch = 4" and "\<forall>(h, w) \<in> set cs. h < cols ch" and "h0 < cols ch" and "a < 3"
  shows "data (fold (\<lambda>(h, w). channel_body width 0 dat msk base h w) cs ch)
           (4 * (cols ch * w0 + h0) + a) =
         (if (h0, w0) \<in> set cs
          then [uchar_of_float (float_mul_int (dat (base + h0 * width + w0)) (at_int msk w0 h0)),
                0, 0] ! a
          else data ch (4 * (cols ch * w0 + h0) + a))"
  using assms
proof (induction cs arbitrary: ch rule: rev_induct)
  case Nil
  then show ?case by simp
next
  case (snoc x cs)
  obtain h w where x: "x = (h, w)" by (cases x)
  let ?ch = "fold (\<lambda>(h, w). channel_body width 0 dat msk base h w) cs ch"
  have shape: "cols ?ch = cols ch" "elemSize ?ch = 4"
    using snoc.prems(1) by (simp_all add: fold_channel_header)
  have hk: "h < cols ch" using snoc.prems(2) by (simp add: x)
  have IH: "data ?ch (4 * (cols ch * w0 + h0) + a) =
         (if (h0, w0) \<in> set cs
          then [uchar_of_float (float_mul_int (dat (base + h0 * width + w0)) (at_int msk w0 h0)),
                0, 0] ! a
          else data ch (4 * (cols ch * w0 + h0) + a))"
    using snoc.prems by (intro snoc.IH) simp_all
  have addr: "ptr_Vec3b_addr ?ch w' h' 0 = 4 * (cols ch * w' + h')" for w' h'
    by (simp add: ptr_Vec3b_addr_def step_def shape)
  show ?case
  proof (cases "h = h0 \<and> w = w0")
    case True
    have "a = 0 \<or> a = 1 \<or> a = 2" using snoc.prems(4) by arith
    then show ?thesis
      using True by (auto simp: x channel_body_data store_Vec3b_def addr)
  next
    case False
    then have "cols ch * w + h \<noteq> cols ch * w0 + h0"
      using element_index_inj [OF hk snoc.prems(3)] by blast
    then have "4 * (cols ch * w0 + h0) + a < 4 * (cols ch * w + h) \<or>
               4 * (cols ch * w + h) + 2 < 4 * (cols ch * w0 + h0) + a"
      using snoc.prems(4) by arith
    then have "data (channel_body width 0 dat msk base h w ?ch) (4 * (cols ch * w0 + h0) + a) =
               data ?ch (4 * (cols ch * w0 + h0) + a)"
      by (auto simp: channel_body_data store_Vec3b_def addr)
    then show ?thesis
      using IH False by (auto simp: x)
  qed
qed

lemma make_channel0_element:
  assumes "h0 < height" and "w0 < width" and "a < 3"
  shows "data (make_channel width height dat msk junk 0) (4 * (height * w0 + h0) + a) =
         [uchar_of_float (float_mul_int (dat (h0 * width + w0)) (at_int msk w0 h0)), 0, 0] ! a"
proof -
  have "(h0, w0) \<in> set (cells height width)"
    using assms(1,2) by (simp add: set_cells)
  moreover have "\<forall>(h, w) \<in> set (cells height width). h < height"
    by (simp add: set_cells)
  ultimately show ?thesis
    using fold_channel0_element [of "Mat_32FC1 width height (junk 0)" "cells height width"
        h0 a width dat msk 0 w0] assms
    by (simp add: make_channel_def for2_def Mat_32FC1_def)
qed

text \<open>The bytes of the merged matrix inside its allocation, and its row length.\<close>

lemma chwDataToMat_projr:
  assumes "0 < n"
  shows "projr (chwDataToMat n width height dat msk junk) =
      \<lparr>rows = width, cols = height, elemSize = 4 * n,
       data = (\<lambda>p. if p < width * height * 4 * n
                    then merged_byte (map (make_channel width height dat msk junk) [0..<n]) p
                    else junk n p)\<rparr>"
proof -
  let ?mv = "map (make_channel width height dat msk junk) [0..<n]"
  obtain m0 ms where mv: "?mv = m0 # ms"
    using assms by (cases ?mv) auto
  have m0: "m0 = make_channel width height dat msk junk 0"
    using mv assms by (metis nth_Cons_0 nth_map_upt add_0 diff_zero)
  have len: "length (m0 # ms) = n" using mv by (metis length_map length_upt diff_zero)
  have shape: "rows m0 = width" "cols m0 = height"
    by (simp_all add: m0 make_channel_header)
  show ?thesis
    unfolding chwDataToMat_def merge_def mv using len shape by simp
qed

lemma chwDataToMat_step:
  assumes "0 < n"
  shows "step (projr (chwDataToMat n width height dat msk junk)) = height * (4 * n)"
  unfolding chwDataToMat_projr [OF assms] by (simp add: step_def)

lemma chwDataToMat_data:
  assumes "0 < n" and "p < width * height * 4 * n"
  shows "data (projr (chwDataToMat n width height dat msk junk)) p =
         data (make_channel width height dat msk junk ((p div 4) mod n))
           (4 * ((p div 4) div n) + p mod 4)"
proof -
  have "(p div 4) mod n < n" using assms(1) by simp
  then show ?thesis
    unfolding chwDataToMat_projr [OF assms(1)] using assms(2)
    by (simp add: merged_byte_def Let_def)
qed

text \<open>
  On the standard extents the scan reads, for the cells \<^verbatim>\<open>(0, 0)\<close> and \<^verbatim>\<open>(1, 0)\<close>,
  bytes that plane 0 received from instance elements 0 and 1, and for the cell
  \<^verbatim>\<open>(0, 1)\<close> byte 3 of plane 0 and byte 0 of plane 1, which no store reaches.
\<close>

lemma standard_feature_bytes:
  fixes dat msk junk
  defines "F \<equiv> projr (chwDataToMat 4 64 32 dat msk junk)"
  shows "at_Vec3b F 0 0 0 = uchar_of_float (float_mul_int (dat 0) (at_int msk 0 0))"
    and "at_Vec3b F 0 0 1 = 0"
    and "at_Vec3b F 1 0 0 = uchar_of_float (float_mul_int (dat 1) (at_int msk 1 0))"
    and "at_Vec3b F 1 0 1 = 0"
    and "at_Vec3b F 0 1 0 = junk 0 3"
    and "at_Vec3b F 0 1 1 = junk 1 0"
proof -
  have st: "step F = 512"
    unfolding F_def by (simp add: chwDataToMat_step)
  have bt: "data F p = data (make_channel 64 32 dat msk junk ((p div 4) mod 4))
                         (4 * ((p div 4) div 4) + p mod 4)" if "p < 32768" for p
    unfolding F_def using that by (simp add: chwDataToMat_data)
  have el: "data (make_channel 64 32 dat msk junk 0) (4 * (32 * w0 + h0) + a) =
      [uchar_of_float (float_mul_int (dat (h0 * 64 + w0)) (at_int msk w0 h0)), 0, 0] ! a"
    if "h0 < 32" and "w0 < 64" and "a < 3" for h0 w0 a
    using that by (rule make_channel0_element)
  show "at_Vec3b F 0 0 0 = uchar_of_float (float_mul_int (dat 0) (at_int msk 0 0))"
    using el [of 0 0 0] by (simp add: at_Vec3b_def st bt)
  show "at_Vec3b F 0 0 1 = 0"
    using el [of 0 0 1] by (simp add: at_Vec3b_def st bt)
  show "at_Vec3b F 1 0 0 = uchar_of_float (float_mul_int (dat 1) (at_int msk 1 0))"
    using el [of 0 1 0] by (simp add: at_Vec3b_def st bt)
  show "at_Vec3b F 1 0 1 = 0"
    using el [of 0 1 1] by (simp add: at_Vec3b_def st bt)
  have "(3::nat) < 32 * 4 * w + 4 * h + 3 * 0 \<or> 32 * 4 * w + 4 * h + 3 * 0 + 2 < 3"
    for h w :: nat by arith
  then have "\<forall>(h, w) \<in> set (cells 32 64).
      (3::nat) < 32 * 4 * w + 4 * h + 3 * 0 \<or> 32 * 4 * w + 4 * h + 3 * 0 + 2 < 3"
    by blast
  then have "data (make_channel 64 32 dat msk junk 0) 3 = junk 0 3"
    by (rule make_channel_untouched)
  then show "at_Vec3b F 0 1 0 = junk 0 3"
    by (simp add: at_Vec3b_def st bt)
  have "data (make_channel 64 32 dat msk junk 1) 0 = junk 1 0"
    by (rule make_channel_untouched) simp
  then show "at_Vec3b F 0 1 1 = junk 1 0"
    by (simp add: at_Vec3b_def st bt)
qed

text \<open>
  The last store into plane 1 on the standard extents starts at byte 8191 of the 8192
  bytes of the plane and covers three bytes: lines 256--259 store past the end of the
  allocation. The model keeps such bytes with the plane; where they lie in the heap of the
  program, and so what else they overwrite, is outside it.
\<close>

lemma plane_store_past_the_end:
  "ptr_Vec3b_addr (Mat_32FC1 64 32 junk) 63 31 1 = 8191 \<and>
   rows (Mat_32FC1 64 32 junk) * step (Mat_32FC1 64 32 junk) = 8192"
  by (simp add: ptr_Vec3b_addr_def Mat_32FC1_def step_def)

text \<open>One pass of the scan in terms of the two bytes it reads.\<close>

lemma scan_cell_bytes:
  assumes "at_Vec3b feature i j 0 = b0" and "at_Vec3b feature i j 1 = b1"
  shows "scan_cell dm feature i j =
     (if b0 = 0 \<and> b1 = 0 then DegenerateSkip
      else if 8 * (int (unat b0) + int j) \<ge> int (d1 dm) \<or>
              8 * (int (unat b1) + int i) \<ge> int (d2 dm)
           then OutOfBoundsSkip
           else BodyEnd (8 * (int (unat b0) + int j)) (8 * (int (unat b1) + int i)))"
proof -
  have z: "\<bar>real (unat b0)\<bar> + \<bar>real (unat b1)\<bar> < degenerate_eps \<longleftrightarrow> b0 = 0 \<and> b1 = 0"
  proof
    assume a: "\<bar>real (unat b0)\<bar> + \<bar>real (unat b1)\<bar> < degenerate_eps"
    then have e0: "\<bar>real (unat b0)\<bar> < degenerate_eps"
      and e1: "\<bar>real (unat b1)\<bar> < degenerate_eps"
      by linarith+
    have "unat b0 = 0" using e0 by (rule below_eps_zero)
    moreover have "unat b1 = 0" using e1 by (rule below_eps_zero)
    ultimately show "b0 = 0 \<and> b1 = 0" by (simp add: unat_eq_0)
  next
    assume "b0 = 0 \<and> b1 = 0"
    then show "\<bar>real (unat b0)\<bar> + \<bar>real (unat b1)\<bar> < degenerate_eps"
      by (simp add: degenerate_eps_def)
  qed
  have "\<not> 8 * (int n + int m) < 0" for n m by arith
  then have nn: "\<not> 8 * (int (unat b0) + int j) < 0" "\<not> 8 * (int (unat b1) + int i) < 0"
    by blast+
  show ?thesis
    unfolding scan_cell_def Let_def assms point_of_nat z using nn by auto
qed

subsection \<open>Single passes on the standard extents\<close>

lemma generate_result_pass:
  assumes "0 < d0 (D 4)" and "0 < d0 (D 5)" and "i < d2 (D 3)" and "j < d1 (D 3)"
  shows "map_sum id (\<lambda>(s, passes). passes ! (i * d1 (D 3) + j)) (generate_result D junk t s) =
     Inr (scan_cell (D 3)
            (projr (chwDataToMat (d0 (D 5)) (d1 (D 5)) (d2 (D 5)) (h_instance s)
                      (build_mask (D 3) (h_confidance s) t (junk 2 0)) (junk 1))) i j)"
  using assms(1,2) scan_nth [OF assms(3,4), of
      "projr (chwDataToMat (d0 (D 5)) (d1 (D 5)) (d2 (D 5)) (h_instance s)
                      (build_mask (D 3) (h_confidance s) t (junk 2 0)) (junk 1))"]
  by (simp add: generate_result_cases)

lemma pinet_output_dims_simps:
  "d0 (pinet_output_dims 4) = 2" "d0 (pinet_output_dims 5) = 4"
  "d1 (pinet_output_dims k) = 64" "d2 (pinet_output_dims k) = 32"
  by (simp_all add: pinet_output_dims_def)

lemma standard_pass:
  assumes "i < 32" and "j < 64"
  shows "map_sum id (\<lambda>(s, passes). passes ! (i * 64 + j))
           (generate_result pinet_output_dims junk t s) =
     Inr (scan_cell (pinet_output_dims 3)
            (projr (chwDataToMat 4 64 32 (h_instance s)
                      (build_mask (pinet_output_dims 3) (h_confidance s) t (junk 2 0))
                      (junk 1))) i j)"
  using generate_result_pass [of pinet_output_dims i j junk t s] assms
  unfolding pinet_output_dims_simps by simp

lemma standard_mask_read:
  assumes "32 * i + 4 * j + 3 < 2048" and "i' < 32" and "j' < 64"
    and "c (i' * 64 + j') > t" and "32 * i' + 4 * j' = 32 * i + 4 * j"
  shows "at_int (build_mask (pinet_output_dims 3) c t outside) i j = 1"
proof -
  let ?dm = "pinet_output_dims 3"
  have d: "4 dvd d2 ?dm" by (simp add: pinet_output_dims_simps)
  have b: "d2 ?dm * i + 4 * j + 3 < d1 ?dm * d2 ?dm"
    using assms(1) by (simp add: pinet_output_dims_simps)
  have "(i', j') \<in> set (cells (d2 ?dm) (d1 ?dm))"
    using assms(2,3) by (simp add: set_cells pinet_output_dims_simps)
  moreover have "c (conf_index ?dm i' j') > t \<and> d2 ?dm * i' + 4 * j' = d2 ?dm * i + 4 * j"
    using assms(4,5) by (simp add: conf_index_def pinet_output_dims_simps)
  ultimately have "\<exists>(i', j') \<in> set (cells (d2 ?dm) (d1 ?dm)).
      c (conf_index ?dm i' j') > t \<and> d2 ?dm * i' + 4 * j' = d2 ?dm * i + 4 * j"
    by blast
  then show ?thesis
    unfolding at_int_build_mask [OF d b] by simp
qed

lemma uchar_of_float_small: "uchar_of_float 1 = 1" "uchar_of_float 2 = 2"
  by (simp_all add: uchar_of_float_def c_trunc_def)

text \<open>The first pass on the input \<open>host_first\<close>.\<close>

lemma host_first_cell:
  "scan_cell (pinet_output_dims 3)
     (projr (chwDataToMat 4 64 32 (h_instance host_first)
               (build_mask (pinet_output_dims 3) (h_confidance host_first) threshold_point
                  (junk 2 0))
               (junk 1))) 0 0 = BodyEnd 16 0"
proof -
  let ?msk = "build_mask (pinet_output_dims 3) (h_confidance host_first) threshold_point
                (junk 2 0)"
  let ?F = "projr (chwDataToMat 4 64 32 (h_instance host_first) ?msk (junk 1))"
  have m: "at_int ?msk 0 0 = 1"
    by (rule standard_mask_read [of 0 0 0 0]) (simp_all add: host_first_def threshold_point_def)
  have v: "h_instance host_first 0 = 2" by (simp add: host_first_def)
  have b0: "at_Vec3b ?F 0 0 0 = 2"
    unfolding standard_feature_bytes(1) m v float_mul_int_two by (rule uchar_of_float_small)
  have b1: "at_Vec3b ?F 0 0 1 = 0"
    by (rule standard_feature_bytes(2))
  show ?thesis
    unfolding scan_cell_bytes [OF b0 b1] by (simp add: pinet_output_dims_simps)
qed

text \<open>
  Claim C3 (the point is computed from the cell's offsets), evaluated on the 64 by 32
  grid with confidence 0.9 and instance value 2 at element 0 and every offset 0.5. The
  first pass of the scan reaches the end of the body with \<^verbatim>\<open>point_x = 16\<close> and
  \<^verbatim>\<open>point_y = 0\<close>, that is \<^verbatim>\<open>(2 + 0) * 8\<close> and \<^verbatim>\<open>(0 + 0) * 8\<close>, from the two
  bytes read out of \<^verbatim>\<open>feature\<close>. With the offsets, \<^verbatim>\<open>dx = dy = 0.5\<close>, the formula of
  the claim gives \<^verbatim>\<open>(0.5 + 0) * 8 = 4\<close> for both.
\<close>

theorem first_point_from_feature_bytes:
  "map_sum id (\<lambda>(s, passes). passes ! 0)
     (generate_result pinet_output_dims junk_zero threshold_point host_first)
   = Inr (BodyEnd 16 0)"
  using standard_pass [of 0 0 junk_zero threshold_point host_first]
  unfolding host_first_cell by simp

subsection \<open>The clustering stage\<close>

text \<open>
  The body of the scan ends at line 317, after the second \<^verbatim>\<open>continue\<close>. The clustering
  of the points (cluster means, candidate scan, point lists) exists in the source only as
  the commented-out reference code of lines 321--353; \<^verbatim>\<open>generate_result\<close> returns
  \<^verbatim>\<open>void\<close> and keeps no cluster, no mean and no point.
\<close>

text \<open>
  Claim C1 (every point that survives the two skips is assigned to a cluster), evaluated
  on the 64 by 32 grid with confidence 0.9 and instance value 2 at element 0: the first
  pass reaches the end of the body with the point (16, 0), and the state after the call
  is, the log aside, the state before it.
\<close>

theorem surviving_point_is_dropped:
  "map_sum id (\<lambda>(s, passes). (s\<lparr>gLogInfo := []\<rparr>, passes ! 0))
     (generate_result pinet_output_dims junk_zero threshold_point host_first)
   = Inr (host_first, BodyEnd 16 0)"
proof -
  let ?msk = "build_mask (pinet_output_dims 3) (h_confidance host_first) threshold_point
                (junk_zero 2 0)"
  let ?F = "projr (chwDataToMat 4 64 32 (h_instance host_first) ?msk (junk_zero 1))"
  have "scan (pinet_output_dims 3) ?F ! (0 * d1 (pinet_output_dims 3) + 0) =
      scan_cell (pinet_output_dims 3) ?F 0 0"
    by (rule scan_nth) (simp_all add: pinet_output_dims_simps)
  then have pass: "scan (pinet_output_dims 3) ?F ! 0 = BodyEnd 16 0"
    unfolding host_first_cell by simp
  have st: "host_first\<lparr>gLogInfo := []\<rparr> = host_first"
    by (simp add: host_first_def)
  show ?thesis
    unfolding generate_result_cases pinet_output_dims_simps using pass st by simp
qed

text \<open>
  Claim C6 (after every assignment each cluster's running mean is the mean of the
  embeddings assigned to it), against what the call leaves behind on any input: it throws,
  or returns the state it was given with the print of the mask added to the log. The
  print is a function of the confidence array and the threshold; no mean of instance
  values is computed or kept.
\<close>

theorem generate_result_only_logs:
  "map_sum id fst (generate_result D junk t s) =
     (if d0 (D 4) = 0 \<or> d0 (D 5) = 0 then Inl CvException
      else Inr (s\<lparr>gLogInfo := gLogInfo s @
                    log_mask (D 3) (build_mask (D 3) (h_confidance s) t (junk 2 0))\<rparr>))"
  by (simp add: generate_result_cases)

subsection \<open>What the scan reads for other cells\<close>

text \<open>
  Claim C4 (a cell that passes the mask and whose first two embedding channels are
  below the epsilon is skipped), evaluated on the 64 by 32 grid with confidence 0.9 at
  element 64 and instance value 1 at element 1. Cell \<^verbatim>\<open>i = 1, j = 0\<close> is above the
  threshold and marked, and planes 0 and 1 of the instance array are 0 at this cell. Its
  pass reads the bytes 512 and 513 of \<^verbatim>\<open>feature\<close>, which plane 0 received from instance
  element 1, the value of cell \<^verbatim>\<open>i = 0, j = 1\<close>: it is not skipped and reaches the end
  of the body with the point (8, 8).
\<close>

theorem zero_embedding_cell_is_not_skipped:
  "marked (build_mask (pinet_output_dims 3) (h_confidance host_alias) threshold_point
             (junk_zero 2 0)) 1 0 \<and>
   h_confidance host_alias (conf_index (pinet_output_dims 3) 1 0) > threshold_point \<and>
   h_instance host_alias (instance_index (pinet_output_dims 5) 0 1 0) = 0 \<and>
   h_instance host_alias (instance_index (pinet_output_dims 5) 1 1 0) = 0 \<and>
   map_sum id (\<lambda>(s, passes). passes ! 64)
     (generate_result pinet_output_dims junk_zero threshold_point host_alias)
   = Inr (BodyEnd 8 8)"
proof -
  let ?msk = "build_mask (pinet_output_dims 3) (h_confidance host_alias) threshold_point
                (junk_zero 2 0)"
  let ?F = "projr (chwDataToMat 4 64 32 (h_instance host_alias) ?msk (junk_zero 1))"
  have m: "at_int ?msk 1 0 = 1"
    by (rule standard_mask_read [of 1 0 1 0]) (simp_all add: host_alias_def threshold_point_def)
  have v: "h_instance host_alias 1 = 1" by (simp add: host_alias_def)
  have b0: "at_Vec3b ?F 1 0 0 = 1"
    unfolding standard_feature_bytes(3) m v float_mul_int_one by (rule uchar_of_float_small)
  have b1: "at_Vec3b ?F 1 0 1 = 0"
    by (rule standard_feature_bytes(4))
  have cell: "scan_cell (pinet_output_dims 3) ?F 1 0 = BodyEnd 8 8"
    unfolding scan_cell_bytes [OF b0 b1] by (simp add: pinet_output_dims_simps)
  have pass: "map_sum id (\<lambda>(s, passes). passes ! 64)
     (generate_result pinet_output_dims junk_zero threshold_point host_alias)
   = Inr (BodyEnd 8 8)"
    using standard_pass [of 1 0 junk_zero threshold_point host_alias] unfolding cell by simp
  have c: "h_confidance host_alias (conf_index (pinet_output_dims 3) 1 0) > threshold_point"
    by (simp add: host_alias_def conf_index_def pinet_output_dims_simps threshold_point_def)
  have i: "h_instance host_alias (instance_index (pinet_output_dims 5) 0 1 0) = 0"
    "h_instance host_alias (instance_index (pinet_output_dims 5) 1 1 0) = 0"
    by (simp_all add: host_alias_def instance_index_def conf_index_def pinet_output_dims_simps)
  show ?thesis
    using m pass c i by (simp add: marked_def)
qed



end
